theory Spec2Isabelle
  imports Main "HOL-Library.Sublist"
begin

section \<open>Python library functions used by modules.py\<close>

text \<open>
  The validator is Python 2 code (\<^verbatim>\<open>iteritems\<close>, \<^verbatim>\<open>ast.TryExcept\<close>). Strings are byte
  strings, modelled as \<^typ>\<open>string\<close>. The functions of this section are the library
  functions the source calls, with the behaviour of the Python 2.7 standard library.
\<close>

abbreviation NL :: char where "NL \<equiv> CHR 0x0A"
abbreviation CR :: char where "CR \<equiv> CHR 0x0D"
abbreviation TAB :: char where "TAB \<equiv> CHR 0x09"

text \<open>\<^verbatim>\<open>'%d' % n\<close> and \<^verbatim>\<open>str(n)\<close> for a non-negative integer.\<close>

definition digit_char :: "nat \<Rightarrow> char" where
  "digit_char d = ''0123456789'' ! d"

function str_nat :: "nat \<Rightarrow> string" where
  "str_nat n = (if n < 10 then [digit_char n] else str_nat (n div 10) @ [digit_char (n mod 10)])"
  by pat_completeness auto
termination
  by (relation "measure id") auto

declare str_nat.simps [simp del]

text \<open>
  \<^verbatim>\<open>str.splitlines()\<close>: lines end at \<^verbatim>\<open>\n\<close>, \<^verbatim>\<open>\r\<close> or \<^verbatim>\<open>\r\n\<close>; the line breaks are not
  kept, and a line break at the very end opens no further line.
\<close>

fun splitlines_from :: "string \<Rightarrow> string \<Rightarrow> string list" where
  "splitlines_from cur [] = (if cur = [] then [] else [rev cur])"
| "splitlines_from cur (c # cs) =
     (if c = NL then rev cur # splitlines_from [] cs
      else if c = CR then
        (case cs of
           [] \<Rightarrow> [rev cur]
         | d # ds \<Rightarrow> if d = NL then rev cur # splitlines_from [] ds
                    else rev cur # splitlines_from [] cs)
      else splitlines_from (c # cur) cs)"

definition splitlines :: "string \<Rightarrow> string list" where
  "splitlines s = splitlines_from [] s"

text \<open>\<^verbatim>\<open>needle in hay\<close> on strings; \<^verbatim>\<open>startswith\<close> and \<^verbatim>\<open>endswith\<close> are \<^const>\<open>prefix\<close> and
  \<^const>\<open>suffix\<close>.\<close>

primrec str_in :: "string \<Rightarrow> string \<Rightarrow> bool" where
  "str_in needle [] = (needle = [])"
| "str_in needle (c # cs) = (prefix needle (c # cs) \<or> str_in needle cs)"

text \<open>\<^verbatim>\<open>line.index(c)\<close>: the 0-based offset of the first occurrence (the source calls it
  only where \<^verbatim>\<open>c in line\<close> holds).\<close>

definition str_index :: "string \<Rightarrow> char \<Rightarrow> nat" where
  "str_index line c = length (takeWhile (\<lambda>x. x \<noteq> c) line)"

definition str_int :: "int \<Rightarrow> string" where
  "str_int i = (if i < 0 then CHR ''-'' # str_nat (nat (- i)) else str_nat (nat i))"

text \<open>\<^verbatim>\<open>str.lower()\<close> on a byte string: only the ASCII capitals change.\<close>

definition lower_char :: "char \<Rightarrow> char" where
  "lower_char c =
     (if c \<in> set ''ABCDEFGHIJKLMNOPQRSTUVWXYZ'' then char_of (of_char c + (32::nat)) else c)"

definition lower :: "string \<Rightarrow> string" where
  "lower s = map lower_char s"

text \<open>\<^verbatim>\<open>s.replace(old, new)\<close>, every occurrence from left to right, for a non-empty
  \<^verbatim>\<open>old\<close>.\<close>

fun str_replace :: "string \<Rightarrow> string \<Rightarrow> string \<Rightarrow> string" where
  "str_replace old new [] = []"
| "str_replace old new (c # cs) =
     (if old \<noteq> [] \<and> prefix old (c # cs)
      then new @ str_replace old new (drop (length old - 1) cs)
      else c # str_replace old new cs)"

text \<open>\<^verbatim>\<open>s.split(sep)\<close> for a one-character separator, and \<^verbatim>\<open>sep.join(parts)\<close>.\<close>

fun split_on :: "char \<Rightarrow> string \<Rightarrow> string \<Rightarrow> string list" where
  "split_on sep cur [] = [rev cur]"
| "split_on sep cur (c # cs) =
     (if c = sep then rev cur # split_on sep [] cs else split_on sep (c # cur) cs)"

definition split :: "string \<Rightarrow> char \<Rightarrow> string list" where
  "split s sep = split_on sep [] s"

fun join :: "string \<Rightarrow> string list \<Rightarrow> string" where
  "join sep [] = []"
| "join sep [x] = x"
| "join sep (x # y # ys) = x @ sep @ join sep (y # ys)"

text \<open>\<^verbatim>\<open>os.path.basename\<close>, and \<^verbatim>\<open>os.path.splitext\<close> on a name without a directory part
  (leading dots do not start an extension).\<close>

definition basename_of :: "string \<Rightarrow> string" where
  "basename_of p = rev (takeWhile (\<lambda>c. c \<noteq> CHR ''/'') (rev p))"

definition splitext :: "string \<Rightarrow> string \<times> string" where
  "splitext p =
     (let ext = rev (takeWhile (\<lambda>c. c \<noteq> CHR ''.'') (rev p));
          root = take (length p - length ext - 1) p
      in if CHR ''.'' \<in> set p \<and> list_ex (\<lambda>c. c \<noteq> CHR ''.'') root
         then (root, CHR ''.'' # ext) else (p, []))"

text \<open>\<^verbatim>\<open>fnmatch(name, pat)\<close> for patterns made of literal characters and \<^verbatim>\<open>*\<close>, which is
  all that \<^verbatim>\<open>BLACKLIST_PATTERNS\<close> uses.\<close>

fun fnmatch :: "string \<Rightarrow> string \<Rightarrow> bool" where
  "fnmatch [] [] = True"
| "fnmatch (c # cs) [] = False"
| "fnmatch [] (p # ps) = (p = CHR ''*'' \<and> fnmatch [] ps)"
| "fnmatch (c # cs) (p # ps) =
     (if p = CHR ''*'' then fnmatch (c # cs) ps \<or> fnmatch cs (p # ps)
      else p = c \<and> fnmatch cs ps)"

subsection \<open>distutils.version.StrictVersion\<close>

text \<open>
  The version pattern is \<^verbatim>\<open>^(\d+)\.(\d+)(\.(\d+))?([ab](\d+))?$\<close>; \<^verbatim>\<open>$\<close> also matches
  before one newline at the end. A version is the triple of numbers (the patch number 0
  when absent) and the optional pre-release tag. A string that does not match raises
  \<^verbatim>\<open>ValueError\<close>: the result \<open>None\<close>.
\<close>

definition is_digit :: "char \<Rightarrow> bool" where
  "is_digit c = (c \<in> set ''0123456789'')"

definition atoi :: "string \<Rightarrow> nat" where
  "atoi ds = foldl (\<lambda>a c. 10 * a + (of_char c - 48)) 0 ds"

record strict_version =
  version :: "nat \<times> nat \<times> nat"
  prerelease :: "(char \<times> nat) option"

definition StrictVersion :: "string \<Rightarrow> strict_version option" where
  "StrictVersion vstring =
     (let s = (if vstring \<noteq> [] \<and> last vstring = NL then butlast vstring else vstring);
          major = takeWhile is_digit s; r1 = dropWhile is_digit s
      in if major = [] then None else
         (case r1 of
            [] \<Rightarrow> None
          | dot # r2 \<Rightarrow>
              let minor = takeWhile is_digit r2; r3 = dropWhile is_digit r2
              in if dot \<noteq> CHR ''.'' \<or> minor = [] then None else
                 let has_patch = (case r3 of [] \<Rightarrow> False
                                  | d # r \<Rightarrow> d = CHR ''.'' \<and> takeWhile is_digit r \<noteq> []);
                     patch = (if has_patch then takeWhile is_digit (tl r3) else []);
                     r4 = (if has_patch then dropWhile is_digit (tl r3) else r3);
                     v = (atoi major, atoi minor, if has_patch then atoi patch else 0)
                 in (case r4 of
                       [] \<Rightarrow> Some \<lparr>version = v, prerelease = None\<rparr>
                     | pre # num \<Rightarrow>
                         if (pre = CHR ''a'' \<or> pre = CHR ''b'') \<and> num \<noteq> [] \<and> list_all is_digit num
                         then Some \<lparr>version = v, prerelease = Some (pre, atoi num)\<rparr>
                         else None)))"

text \<open>\<^verbatim>\<open>__str__\<close>: the patch number is printed only when it is not 0.\<close>

definition str_version :: "strict_version \<Rightarrow> string" where
  "str_version sv =
     (case version sv of (major, minor, patch) \<Rightarrow>
        (if patch = 0 then join ''.'' (map str_nat [major, minor])
         else join ''.'' (map str_nat [major, minor, patch]))
        @ (case prerelease sv of None \<Rightarrow> [] | Some (letter, num) \<Rightarrow> letter # str_nat num))"

text \<open>\<^verbatim>\<open>__cmp__\<close>: the number triples are compared first; with equal triples a version
  with a pre-release tag is smaller than the one without, and two tags are compared as
  pairs.\<close>

definition cmp_nat :: "nat \<Rightarrow> nat \<Rightarrow> int" where
  "cmp_nat a b = (if a < b then - 1 else if a = b then 0 else 1)"

definition cmp_version :: "nat \<times> nat \<times> nat \<Rightarrow> nat \<times> nat \<times> nat \<Rightarrow> int" where
  "cmp_version a b =
     (case (a, b) of ((a1, a2, a3), (b1, b2, b3)) \<Rightarrow>
        if cmp_nat a1 b1 \<noteq> 0 then cmp_nat a1 b1
        else if cmp_nat a2 b2 \<noteq> 0 then cmp_nat a2 b2
        else cmp_nat a3 b3)"

definition cmp_prerelease :: "char \<times> nat \<Rightarrow> char \<times> nat \<Rightarrow> int" where
  "cmp_prerelease a b =
     (case (a, b) of ((ca, na), (cb, nb)) \<Rightarrow>
        if cmp_nat (of_char ca) (of_char cb) \<noteq> 0 then cmp_nat (of_char ca) (of_char cb)
        else cmp_nat na nb)"

definition cmp_strict :: "strict_version \<Rightarrow> strict_version \<Rightarrow> int" where
  "cmp_strict a b =
     (let compare = cmp_version (version a) (version b)
      in if compare = 0 then
           (case (prerelease a, prerelease b) of
              (None, None) \<Rightarrow> 0
            | (Some pa, None) \<Rightarrow> - 1
            | (None, Some pb) \<Rightarrow> 1
            | (Some pa, Some pb) \<Rightarrow> cmp_prerelease pa pb)
         else compare)"


section \<open>The Validator base class\<close>

text \<open>
  Exceptions, both the ones that are caught and kept in \<^verbatim>\<open>self.traces\<close> and the ones no
  handler of modules.py catches (these end the run; the model returns them as \<open>Inl\<close>).
  A YAML error carries the name, line and column of its \<^verbatim>\<open>problem_mark\<close>.
\<close>

datatype exc =
    AttributeError
  | KeyError
  | ValueError
  | YAMLError string int nat
  | OtherException string

record validator =
  path :: string
  errors :: "string list"
  warnings :: "string list"
  traces :: "exc list"

definition reset :: "'a validator_scheme \<Rightarrow> 'a validator_scheme" where
  "reset v = v\<lparr>errors := [], warnings := [], traces := []\<rparr>"

text \<open>
  What \<^verbatim>\<open>report\<close> prints, line by line. The text of a trace is the text of an exception
  object of a library; it is kept as the exception itself.
\<close>

datatype out = Print string | PrintTrace exc

definition report :: "bool \<Rightarrow> 'a validator_scheme \<Rightarrow> out list \<times> nat" where
  "report show_warnings v =
     (let banner = (errors v \<noteq> [] \<or> (show_warnings \<and> warnings v \<noteq> []));
          ret = map (\<lambda>error. 1::nat) (errors v)
      in ((if banner then [Print (replicate 76 CHR ''=''), Print (path v),
                           Print (replicate 76 CHR ''='')] else [])
          @ concat (map (\<lambda>trace. [Print ''TRACE:'', PrintTrace trace]) (traces v))
          @ map (\<lambda>error. Print (''ERROR: '' @ error)) (errors v)
          @ (if show_warnings then map (\<lambda>warning. Print (''WARNING: '' @ warning)) (warnings v)
             else [])
          @ (if banner then [Print ''''] else []),
          length ret))"

section \<open>The parsed module\<close>

text \<open>
  The tree \<^verbatim>\<open>ast.parse\<close> returns, with the node classes and the attributes modules.py
  reads. An expression has an \<^verbatim>\<open>id\<close> when it is a \<^verbatim>\<open>Name\<close>, an \<^verbatim>\<open>s\<close> when it is a \<^verbatim>\<open>Str\<close>,
  a \<^verbatim>\<open>func\<close> when it is a \<^verbatim>\<open>Call\<close> and a \<^verbatim>\<open>left\<close> when it is a \<^verbatim>\<open>Compare\<close> or a \<^verbatim>\<open>BinOp\<close>.
  A statement carries its \<^verbatim>\<open>lineno\<close> last; \<^verbatim>\<open>TryExcept\<close> has its \<^verbatim>\<open>body\<close> and the bodies
  of its \<^verbatim>\<open>handlers\<close>, \<^verbatim>\<open>If\<close> its \<^verbatim>\<open>test\<close> and \<^verbatim>\<open>body\<close>.
\<close>

datatype expr =
    Name string
  | Str string
  | Call expr
  | Compare expr
  | BinOp expr
  | OtherExpr

datatype import_alias = Alias string "string option"

datatype stmt =
    Assign "expr list" expr nat
  | Import "import_alias list" nat
  | ImportFrom "string option" "import_alias list" nat
  | TryExcept "stmt list" "stmt list list" nat
  | IfStmt expr "stmt list" nat
  | Expr expr nat
  | OtherStmt nat

text \<open>Attribute access; \<open>None\<close> is the \<^verbatim>\<open>AttributeError\<close> of a node without the
  attribute.\<close>

fun attr_id :: "expr \<Rightarrow> string option" where
  "attr_id (Name s) = Some s"
| "attr_id _ = None"

fun attr_s :: "expr \<Rightarrow> string option" where
  "attr_s (Str s) = Some s"
| "attr_s _ = None"

fun attr_left :: "expr \<Rightarrow> expr option" where
  "attr_left (Compare l) = Some l"
| "attr_left (BinOp l) = Some l"
| "attr_left _ = None"

fun alias_name :: "import_alias \<Rightarrow> string" where
  "alias_name (Alias n a) = n"

fun alias_asname :: "import_alias \<Rightarrow> string option" where
  "alias_asname (Alias n a) = a"

section \<open>ModuleValidator\<close>

record module_validator = validator +
  source_text :: string
  ast :: "stmt list option"
  python_module_override :: bool

text \<open>\<^verbatim>\<open>self.basename\<close>, \<^verbatim>\<open>self.name\<close> and \<^verbatim>\<open>self.length\<close>, which \<^verbatim>\<open>__init__\<close> computes from the
  path and the text.\<close>

definition basename :: "module_validator \<Rightarrow> string" where
  "basename v = basename_of (path v)"

definition name :: "module_validator \<Rightarrow> string" where
  "name v = fst (splitext (basename v))"

definition length_lines :: "module_validator \<Rightarrow> nat" where
  "length_lines v = length (splitlines (source_text v))"

definition python_module :: "module_validator \<Rightarrow> bool" where
  "python_module v = (suffix ''.py'' (path v) \<or> python_module_override v)"

definition powershell_module :: "module_validator \<Rightarrow> bool" where
  "powershell_module v = suffix ''.ps1'' (path v)"

fun is_Assign :: "stmt \<Rightarrow> bool" where
  "is_Assign (Assign targets val l) = True"
| "is_Assign _ = False"

text \<open>\<^verbatim>\<open>_just_docs\<close>: without a tree, \<^verbatim>\<open>self.ast.body\<close> raises the \<^verbatim>\<open>AttributeError\<close> that the
  method catches.\<close>

definition just_docs :: "module_validator \<Rightarrow> bool" where
  "just_docs v = (case ast v of None \<Rightarrow> False | Some body \<Rightarrow> list_all is_Assign body)"

definition BOTTOM_IMPORTS :: "string list" where
  "BOTTOM_IMPORTS =
     [''ansible.module_utils.basic'', ''ansible.module_utils.urls'',
      ''ansible.module_utils.facts'', ''ansible.module_utils.splitter'',
      ''ansible.module_utils.known_hosts'', ''ansible.module_utils.rax'']"

definition is_bottom_import_blacklisted :: "module_validator \<Rightarrow> bool" where
  "is_bottom_import_blacklisted v = (basename v \<in> set [''command.py''])"

subsection \<open>Checks on the raw text\<close>

definition check_interpreter :: "bool \<Rightarrow> module_validator \<Rightarrow> module_validator" where
  "check_interpreter powershell v =
     (if powershell then
        (if \<not> prefix (''#!powershell'' @ [NL]) (source_text v)
         then v\<lparr>errors := errors v @ [''Interpreter line is not \"#!powershell\"'']\<rparr>
         else v)
      else if \<not> prefix ''#!/usr/bin/python'' (source_text v)
        then v\<lparr>errors := errors v @ [''Interpreter line is not \"#!/usr/bin/python\"'']\<rparr>
        else v)"

definition check_for_sys_exit :: "module_validator \<Rightarrow> module_validator" where
  "check_for_sys_exit v =
     (if str_in ''sys.exit('' (source_text v)
      then v\<lparr>errors := errors v @ [''sys.exit() call found. Should be exit_json/fail_json'']\<rparr>
      else v)"

definition check_for_gpl3_header :: "module_validator \<Rightarrow> module_validator" where
  "check_for_gpl3_header v =
     (if \<not> str_in ''GNU General Public License'' (source_text v) \<and>
         \<not> str_in ''version 3'' (source_text v)
      then v\<lparr>errors := errors v @ [''GPLv3 license header not found'']\<rparr>
      else v)"

text \<open>
  \<^verbatim>\<open>_check_for_tabs\<close>: \<^verbatim>\<open>INDENT_REGEX\<close> is \<^verbatim>\<open>([\t]*)\<close>, which matches (possibly the empty
  string) in every line, so the test of a line is \<^verbatim>\<open>'\t' in line\<close>. The loop runs with
  \<^verbatim>\<open>line_no\<close> counting from 0.
\<close>

fun check_for_tabs_loop :: "nat \<Rightarrow> string list \<Rightarrow> string list \<Rightarrow> string list" where
  "check_for_tabs_loop line_no [] errs = errs"
| "check_for_tabs_loop line_no (line # lines) errs =
     check_for_tabs_loop (line_no + 1) lines
       (if TAB \<in> set line
        then errs @ [''indentation contains tabs. line '' @ str_nat (line_no + 1) @
                     '' column '' @ str_nat (str_index line TAB)]
        else errs)"

definition check_for_tabs :: "module_validator \<Rightarrow> module_validator" where
  "check_for_tabs v =
     v\<lparr>errors := check_for_tabs_loop 0 (splitlines (source_text v)) (errors v)\<rparr>"

subsection \<open>Checks on the tree\<close>

text \<open>
  Every method below starts from \<^verbatim>\<open>self.ast.body\<close>, which raises \<^verbatim>\<open>AttributeError\<close> when the
  text did not parse. Lists of the tree are Python lists, and \<^verbatim>\<open>extend\<close> changes them in
  place: a method that extends a list of the tree returns the validator with the changed
  tree. (A statement of a guard that has been appended to the top level is in Python the
  same object as the one in the guard; the copy that stays inside the guard is read by no
  check of this file afterwards.)
\<close>

fun json_warnings :: "stmt \<Rightarrow> string list" where
  "json_warnings (Import names l) =
     concat (map (\<lambda>a. if alias_name a = ''json''
                       then [''JSON import found, already provided by ansible.module_utils.basic'']
                       else []) names)"
| "json_warnings _ = []"

definition find_json_import :: "module_validator \<Rightarrow> exc + module_validator" where
  "find_json_import v =
     (case ast v of
        None \<Rightarrow> Inl AttributeError
      | Some body \<Rightarrow> Inr (v\<lparr>warnings := warnings v @ concat (map json_warnings body)\<rparr>))"

text \<open>\<^verbatim>\<open>bodies = child.body\<close> followed by \<^verbatim>\<open>bodies.extend(handler.body)\<close> for every handler:
  the body of the \<^verbatim>\<open>TryExcept\<close> node itself grows by the bodies of its handlers.\<close>

fun extend_try_except :: "stmt \<Rightarrow> stmt" where
  "extend_try_except (TryExcept body handlers l) = TryExcept (body @ concat handlers) handlers l"
| "extend_try_except child = child"

fun requests_import_errors :: "stmt \<Rightarrow> string list" where
  "requests_import_errors (Import names l) =
     concat (map (\<lambda>a. if alias_name a = ''requests''
                       then [''requests import found, should use ansible.module_utils.urls instead'']
                       else []) names)"
| "requests_import_errors _ = []"

fun requests_errors :: "stmt \<Rightarrow> string list" where
  "requests_errors (Import names l) = requests_import_errors (Import names l)"
| "requests_errors (TryExcept body handlers l) =
     concat (map requests_import_errors (body @ concat handlers))"
| "requests_errors _ = []"

definition find_requests_import :: "module_validator \<Rightarrow> exc + module_validator" where
  "find_requests_import v =
     (case ast v of
        None \<Rightarrow> Inl AttributeError
      | Some body \<Rightarrow>
          Inr (v\<lparr>errors := errors v @ concat (map requests_errors body),
                 ast := Some (map extend_try_except body)\<rparr>))"

text \<open>\<^verbatim>\<open>_find_module_utils\<close>. \<^verbatim>\<open>child.module\<close> is \<^verbatim>\<open>None\<close> for \<^verbatim>\<open>from . import x\<close>, where
  \<^verbatim>\<open>startswith\<close> raises. The errors and the line number one statement adds:\<close>

definition truthy :: "string option \<Rightarrow> bool" where
  "truthy s = (case s of None \<Rightarrow> False | Some t \<Rightarrow> t \<noteq> [])"

fun module_utils_child ::
  "bool \<Rightarrow> nat \<Rightarrow> stmt \<Rightarrow> exc + (string list \<times> nat list)" where
  "module_utils_child blacklisted main (ImportFrom module names l) =
     (case module of
        None \<Rightarrow> Inl AttributeError
      | Some m \<Rightarrow>
          if prefix ''ansible.module_utils.'' m then
            Inr ((if m \<in> set BOTTOM_IMPORTS \<and> int l < int main - 10 \<and> \<not> blacklisted
                  then [m @ '' import not near call to main()''] else [])
                 @ (if names = [] then [m @ '': not a \"from\" import\"''] else [])
                 @ concat (map (\<lambda>a. if truthy (alias_asname a) \<or> alias_name a \<noteq> ''*''
                                    then [m @ '': did not import \"*\"''] else []) names)
                 @ (if names = [] then [m @ '': did not import \"*\"''] else []),
                 [l])
          else Inr ([], []))"
| "module_utils_child blacklisted main child = Inr ([], [])"

fun find_module_utils_loop ::
  "bool \<Rightarrow> nat \<Rightarrow> stmt list \<Rightarrow> string list \<times> nat list \<Rightarrow> exc + (string list \<times> nat list)" where
  "find_module_utils_loop blacklisted main [] acc = Inr acc"
| "find_module_utils_loop blacklisted main (child # rest) acc =
     (case module_utils_child blacklisted main child of
        Inl e \<Rightarrow> Inl e
      | Inr new \<Rightarrow>
          find_module_utils_loop blacklisted main rest (fst acc @ fst new, snd acc @ snd new))"

definition find_module_utils ::
  "nat \<Rightarrow> module_validator \<Rightarrow> exc + (module_validator \<times> nat list)" where
  "find_module_utils main v =
     (case ast v of
        None \<Rightarrow> Inl AttributeError
      | Some body \<Rightarrow>
          (case find_module_utils_loop (is_bottom_import_blacklisted v) main body (errors v, []) of
             Inl e \<Rightarrow> Inl e
           | Inr acc \<Rightarrow>
               Inr (v\<lparr>errors := (if snd acc = []
                                  then fst acc @ [''Did not find a module_utils import'']
                                  else fst acc)\<rparr>,
                    snd acc)))"

text \<open>
  \<^verbatim>\<open>_find_main_call\<close>. The body of a top-level \<^verbatim>\<open>if\<close> is collected when
  \<^verbatim>\<open>child.test.left.id == '__name__'\<close>; a test without these attributes raises the
  \<^verbatim>\<open>AttributeError\<close> that is passed over. \<^verbatim>\<open>bodies = self.ast.body\<close> is the list of the tree
  itself, so \<^verbatim>\<open>bodies.extend(if_bodies)\<close> extends the tree. \<^verbatim>\<open>lineno\<close> starts as \<^verbatim>\<open>False\<close>,
  which is 0.
\<close>

fun if_body :: "stmt \<Rightarrow> stmt list" where
  "if_body (IfStmt test body l) =
     (case attr_left test of
        None \<Rightarrow> []
      | Some left \<Rightarrow>
          (case attr_id left of
             None \<Rightarrow> []
           | Some i \<Rightarrow> if i = ''__name__'' then body else []))"
| "if_body child = []"

definition if_bodies :: "stmt list \<Rightarrow> stmt list" where
  "if_bodies body = concat (map if_body body)"

text \<open>The line of a statement that is an expression statement calling the name
  \<^verbatim>\<open>main\<close>.\<close>

fun main_call :: "stmt \<Rightarrow> nat option" where
  "main_call (Expr (Call (Name f)) l) = (if f = ''main'' then Some l else None)"
| "main_call child = None"

fun find_main_call_loop ::
  "nat \<Rightarrow> stmt list \<Rightarrow> nat \<times> string list \<Rightarrow> nat \<times> string list" where
  "find_main_call_loop len [] acc = acc"
| "find_main_call_loop len (child # rest) acc =
     find_main_call_loop len rest
       (case main_call child of
          None \<Rightarrow> acc
        | Some lineno \<Rightarrow>
            (lineno, if int lineno < int len - 1
                     then snd acc @ [''Call to main() not the last line'']
                     else snd acc))"

definition find_main_call :: "module_validator \<Rightarrow> exc + (module_validator \<times> nat)" where
  "find_main_call v =
     (case ast v of
        None \<Rightarrow> Inl AttributeError
      | Some body \<Rightarrow>
          let bodies = body @ if_bodies body;
              acc = find_main_call_loop (length_lines v) bodies (0, errors v);
              lineno = fst acc
          in Inr (v\<lparr>errors := (if lineno = 0 then snd acc @ [''Did not find a call to main'']
                                 else snd acc),
                    ast := Some bodies\<rparr>,
                  lineno))"

text \<open>\<^verbatim>\<open>_find_has_import\<close>. \<^verbatim>\<open>target.id\<close> raises for a target that is not a name.\<close>

fun has_targets :: "expr list \<Rightarrow> exc + bool" where
  "has_targets [] = Inr False"
| "has_targets (target # targets) =
     (case attr_id target of
        None \<Rightarrow> Inl AttributeError
      | Some i \<Rightarrow>
          (case has_targets targets of
             Inl e \<Rightarrow> Inl e
           | Inr found \<Rightarrow> Inr (prefix ''has_'' (lower i) \<or> found)))"

fun has_grandchildren :: "stmt list \<Rightarrow> bool \<times> bool \<Rightarrow> exc + (bool \<times> bool)" where
  "has_grandchildren [] flags = Inr flags"
| "has_grandchildren (Import names l # rest) flags = has_grandchildren rest (True, snd flags)"
| "has_grandchildren (Assign targets val l # rest) flags =
     (case has_targets targets of
        Inl e \<Rightarrow> Inl e
      | Inr found \<Rightarrow> has_grandchildren rest (fst flags, snd flags \<or> found))"
| "has_grandchildren (grandchild # rest) flags = has_grandchildren rest flags"

fun has_import_warnings :: "stmt \<Rightarrow> exc + string list" where
  "has_import_warnings (TryExcept body handlers l) =
     (case has_grandchildren (body @ concat handlers) (False, False) of
        Inl e \<Rightarrow> Inl e
      | Inr flags \<Rightarrow>
          Inr (if fst flags \<and> \<not> snd flags
               then [''Found Try/Except block without HAS_ assginment''] else []))"
| "has_import_warnings child = Inr []"

fun find_has_import_loop :: "stmt list \<Rightarrow> string list \<Rightarrow> exc + string list" where
  "find_has_import_loop [] warns = Inr warns"
| "find_has_import_loop (child # rest) warns =
     (case has_import_warnings child of
        Inl e \<Rightarrow> Inl e
      | Inr new \<Rightarrow> find_has_import_loop rest (warns @ new))"

definition find_has_import :: "module_validator \<Rightarrow> exc + module_validator" where
  "find_has_import v =
     (case ast v of
        None \<Rightarrow> Inl AttributeError
      | Some body \<Rightarrow>
          (case find_has_import_loop body (warnings v) of
             Inl e \<Rightarrow> Inl e
           | Inr warns \<Rightarrow> Inr (v\<lparr>warnings := warns, ast := Some (map extend_try_except body)\<rparr>)))"

text \<open>
  \<^verbatim>\<open>_get_docs\<close>. An entry of the dictionary it returns is the pair of \<^verbatim>\<open>value\<close> and
  \<^verbatim>\<open>lineno\<close>. \<^verbatim>\<open>grandchild.id\<close> raises for a target that is not a name and \<^verbatim>\<open>child.value.s\<close>
  for a value that is not a string literal.
\<close>

type_synonym doc_entry = "string option \<times> nat"

record docs =
  DOCUMENTATION :: doc_entry
  EXAMPLES :: doc_entry
  RETURN :: doc_entry

fun get_docs_targets :: "expr \<Rightarrow> nat \<Rightarrow> expr list \<Rightarrow> docs \<Rightarrow> exc + docs" where
  "get_docs_targets val lineno [] d = Inr d"
| "get_docs_targets val lineno (grandchild # targets) d =
     (case attr_id grandchild of
        None \<Rightarrow> Inl AttributeError
      | Some i \<Rightarrow>
          if i = ''DOCUMENTATION'' then
            (case attr_s val of
               None \<Rightarrow> Inl AttributeError
             | Some s \<Rightarrow> get_docs_targets val lineno targets (d\<lparr>DOCUMENTATION := (Some s, lineno)\<rparr>))
          else if i = ''EXAMPLES'' then
            (case attr_s val of
               None \<Rightarrow> Inl AttributeError
             | Some s \<Rightarrow>
                 get_docs_targets val lineno targets (d\<lparr>EXAMPLES := (Some (drop 1 s), lineno)\<rparr>))
          else if i = ''RETURN'' then
            (case attr_s val of
               None \<Rightarrow> Inl AttributeError
             | Some s \<Rightarrow> get_docs_targets val lineno targets (d\<lparr>RETURN := (Some s, lineno)\<rparr>))
          else get_docs_targets val lineno targets d)"

fun get_docs_loop :: "stmt list \<Rightarrow> docs \<Rightarrow> exc + docs" where
  "get_docs_loop [] d = Inr d"
| "get_docs_loop (Assign targets val lineno # rest) d =
     (case get_docs_targets val lineno targets d of
        Inl e \<Rightarrow> Inl e
      | Inr d' \<Rightarrow> get_docs_loop rest d')"
| "get_docs_loop (child # rest) d = get_docs_loop rest d"

definition get_docs :: "module_validator \<Rightarrow> exc + docs" where
  "get_docs v =
     (case ast v of
        None \<Rightarrow> Inl AttributeError
      | Some body \<Rightarrow>
          get_docs_loop body
            \<lparr>DOCUMENTATION = (None, 0), EXAMPLES = (None, 0), RETURN = (None, 0)\<rparr>)"

section \<open>The documentation and the collaborators outside modules.py\<close>

text \<open>
  A value of a YAML document, as modules.py observes it: the text \<^verbatim>\<open>str(v)\<close>, which is what
  \<^verbatim>\<open>StrictVersion\<close> and \<^verbatim>\<open>%s\<close> read, and the text \<^verbatim>\<open>repr(v)\<close> of \<^verbatim>\<open>%r\<close>. The details of an
  option are a dictionary from keys to values; a document is a dictionary of which
  modules.py reads \<^verbatim>\<open>version_added\<close>, \<^verbatim>\<open>options\<close> (the empty dictionary when the key is
  absent) and \<^verbatim>\<open>extends_documentation_fragment\<close>. A dictionary is an association list with
  one entry per key, in the order \<^verbatim>\<open>iteritems\<close> gives. The types say that a loaded document
  and the details of an option are dictionaries; YAML texts that load as something else
  (on which \<^verbatim>\<open>get\<close> raises) are not covered.
\<close>

record pyobj =
  py_str :: string
  py_repr :: string

type_synonym details = "(string \<times> pyobj) list"

record pydoc =
  doc_version_added :: "pyobj option"
  doc_options :: "(string \<times> details) list"
  doc_fragment :: "pyobj option"

text \<open>The default \<^verbatim>\<open>'0.0'\<close> of \<^verbatim>\<open>get('version_added', '0.0')\<close>.\<close>

definition default_version_added :: pyobj where
  "default_version_added = \<lparr>py_str = ''0.0'', py_repr = CHR 0x27 # ''0.0'' @ [CHR 0x27]\<rparr>"

definition get_version_added :: "pyobj option \<Rightarrow> pyobj" where
  "get_version_added x = (case x of None \<Rightarrow> default_version_added | Some v \<Rightarrow> v)"

text \<open>
  What the libraries return. \<^verbatim>\<open>yaml.safe_load\<close> gives a document or raises a \<^verbatim>\<open>YAMLError\<close>,
  whose \<^verbatim>\<open>problem_mark\<close> (line and column, from 0) may be missing. \<^verbatim>\<open>get_docstring\<close> gives the
  document (or \<^verbatim>\<open>None\<close>), or raises \<^verbatim>\<open>AssertionError\<close> for a missing fragment, or another
  exception. A schema raises an exception with the list \<^verbatim>\<open>errors\<close>, each with its \<^verbatim>\<open>path\<close>
  (the \<^verbatim>\<open>str\<close> of its elements) and \<^verbatim>\<open>error_message\<close>; the empty list stands for no exception.
\<close>

datatype yaml_result = YAMLFailure "(nat \<times> nat) option" | YAMLDocument pydoc

datatype docstring_result = DocAssertionError | DocException exc | DocResult "pydoc option"

type_synonym schema_error = "string list \<times> string"

text \<open>
  The names modules.py imports from ansible, yaml, schema and utils, the built-in
  \<^verbatim>\<open>compile\<close> (the exception it raises for a text and a path, if any), the file system, and
  \<open>redeclared\<close>: the names of \<^verbatim>\<open>BASIC_RESERVED.intersection(g)\<close> for the set \<^verbatim>\<open>g\<close> that
  \<^verbatim>\<open>find_globals\<close> collects from the statements, in the order of the iteration.
\<close>

record env =
  ansible_version :: string
  has_plugin :: "string \<Rightarrow> bool"
  find_plugin :: "string \<Rightarrow> string option"
  get_docstring :: "string option \<Rightarrow> docstring_result"
  yaml_safe_load :: "string \<Rightarrow> yaml_result"
  doc_schema :: "pydoc \<Rightarrow> schema_error list"
  option_schema :: "details \<Rightarrow> schema_error list"
  compile_exception :: "string \<Rightarrow> string \<Rightarrow> exc option"
  redeclared :: "stmt list \<Rightarrow> string list"
  BLACKLIST_MODULES :: "string list"
  REPLACER_WINDOWS :: string
  isfile :: "string \<Rightarrow> bool"
  path_exists :: "string \<Rightarrow> bool"

definition is_new_module :: "env \<Rightarrow> module_validator \<Rightarrow> bool" where
  "is_new_module E v = (\<not> has_plugin E (name v))"

text \<open>\<^verbatim>\<open>'.'.join(ansible_version.split('.')[:2])\<close>\<close>

definition should_be :: "env \<Rightarrow> string" where
  "should_be E = join ''.'' (take 2 (split (ansible_version E) CHR ''.''))"

subsection \<open>Version tags\<close>

text \<open>\<^verbatim>\<open>_check_version_added\<close>. \<^verbatim>\<open>StrictVersion(should_be)\<close> is outside the \<^verbatim>\<open>try\<close>: its
  \<^verbatim>\<open>ValueError\<close> is not caught.\<close>

definition check_version_added ::
  "env \<Rightarrow> pydoc \<Rightarrow> module_validator \<Rightarrow> exc + module_validator" where
  "check_version_added E doc v =
     (if \<not> is_new_module E v then Inr v
      else
        (case StrictVersion (py_str (get_version_added (doc_version_added doc))) of
           None \<Rightarrow>
             Inr (v\<lparr>errors := errors v @
                    [''version_added is not a valid version number: '' @
                     py_repr (get_version_added (doc_version_added doc))]\<rparr>)
         | Some version_added \<Rightarrow>
             (case StrictVersion (should_be E) of
                None \<Rightarrow> Inl ValueError
              | Some strict_ansible_version \<Rightarrow>
                  if cmp_strict version_added strict_ansible_version < 0 \<or>
                     cmp_strict strict_ansible_version version_added < 0
                  then Inr (v\<lparr>errors := errors v @
                              [''version_added should be '' @ should_be E @ ''. Currently '' @
                               str_version version_added]\<rparr>)
                  else Inr v)))"

text \<open>\<^verbatim>\<open>_check_for_new_args\<close>. The loop over \<^verbatim>\<open>options.iteritems()\<close>: an option is new when
  \<^verbatim>\<open>existing_options.get(option)\<close> is false, that is absent or an empty dictionary.\<close>

definition is_new_option :: "(string \<times> details) list \<Rightarrow> string \<Rightarrow> bool" where
  "is_new_option existing_options option =
     (case map_of existing_options option of None \<Rightarrow> True | Some d \<Rightarrow> d = [])"

fun new_args_loop ::
  "string \<Rightarrow> strict_version \<Rightarrow> strict_version \<Rightarrow> (string \<times> details) list \<Rightarrow>
   (string \<times> details) list \<Rightarrow> string list \<Rightarrow> string list" where
  "new_args_loop sb strict_ansible_version mod_version_added existing_options [] errs = errs"
| "new_args_loop sb strict_ansible_version mod_version_added existing_options
     ((option, details) # rest) errs =
     new_args_loop sb strict_ansible_version mod_version_added existing_options rest
       (if \<not> is_new_option existing_options option then errs
        else
          (case StrictVersion (py_str (get_version_added (map_of details ''version_added''))) of
             None \<Rightarrow>
               errs @ [''version_added for new option ('' @ option @
                       '') is not a valid version number: '' @
                       py_repr (get_version_added (map_of details ''version_added''))]
           | Some version_added \<Rightarrow>
               if cmp_strict strict_ansible_version mod_version_added \<noteq> 0 \<and>
                  (cmp_strict version_added strict_ansible_version < 0 \<or>
                   cmp_strict strict_ansible_version version_added < 0)
               then errs @ [''version_added for new option ('' @ option @ '') should be '' @
                            sb @ ''. Currently '' @ str_version version_added]
               else errs))"

text \<open>\<^verbatim>\<open>StrictVersion('0.0')\<close>\<close>

definition version_0_0 :: strict_version where
  "version_0_0 = \<lparr>version = (0, 0, 0), prerelease = None\<rparr>"

definition check_for_new_args ::
  "env \<Rightarrow> pydoc \<Rightarrow> module_validator \<Rightarrow> exc + module_validator" where
  "check_for_new_args E doc v =
     (if is_new_module E v then Inr v
      else
        (case get_docstring E (find_plugin E (name v)) of
           DocAssertionError \<Rightarrow>
             (case doc_fragment doc of
                None \<Rightarrow> Inl KeyError
              | Some fragment \<Rightarrow>
                  Inr (v\<lparr>errors := errors v @
                         [''Existing DOCUMENTATION fragment missing: '' @ py_str fragment]\<rparr>))
         | DocException e \<Rightarrow>
             Inr (v\<lparr>traces := traces v @ [e],
                    errors := errors v @ [''Unknown existing DOCUMENTATION error, see TRACE'']\<rparr>)
         | DocResult None \<Rightarrow>
             Inr (v\<lparr>traces := traces v @ [AttributeError],
                    errors := errors v @ [''Unknown existing DOCUMENTATION error, see TRACE'']\<rparr>)
         | DocResult (Some existing_doc) \<Rightarrow>
             let mod_version_added =
                   (case StrictVersion
                           (py_str (get_version_added (doc_version_added existing_doc))) of
                      None \<Rightarrow> version_0_0
                    | Some m \<Rightarrow> m)
             in (case StrictVersion (should_be E) of
                   None \<Rightarrow> Inl ValueError
                 | Some strict_ansible_version \<Rightarrow>
                     Inr (v\<lparr>errors :=
                            new_args_loop (should_be E) strict_ansible_version mod_version_added
                              (doc_options existing_doc) (doc_options doc) (errors v)\<rparr>))))"

subsection \<open>Documentation\<close>

definition schema_errors :: "env \<Rightarrow> pydoc \<Rightarrow> schema_error list" where
  "schema_errors E doc =
     doc_schema E doc @
     concat (map (\<lambda>kv. map (\<lambda>err. ([''options'', fst kv] @ fst err, snd err))
                          (option_schema E (snd kv)))
                 (doc_options doc))"

definition validate_docs_schema :: "env \<Rightarrow> pydoc \<Rightarrow> module_validator \<Rightarrow> module_validator" where
  "validate_docs_schema E doc v =
     v\<lparr>errors := errors v @
          map (\<lambda>err. ''DOCUMENTATION.'' @ join ''.'' (fst err) @ '': '' @ snd err)
              (schema_errors E doc)\<rparr>"

text \<open>The \<^verbatim>\<open>else\<close> branch of the \<^verbatim>\<open>try\<close> in \<^verbatim>\<open>_validate_docs\<close>, for the loaded document.\<close>

definition validate_loaded_doc ::
  "env \<Rightarrow> pydoc \<Rightarrow> module_validator \<Rightarrow> exc + module_validator" where
  "validate_loaded_doc E doc v =
     (case (case get_docstring E (Some (path v)) of
              DocAssertionError \<Rightarrow>
                (case doc_fragment doc of
                   None \<Rightarrow> Inl KeyError
                 | Some fragment \<Rightarrow>
                     Inr (v\<lparr>errors := errors v @
                            [''DOCUMENTATION fragment missing: '' @ py_str fragment]\<rparr>))
            | DocException e \<Rightarrow>
                Inr (v\<lparr>traces := traces v @ [e],
                       errors := errors v @ [''Unknown DOCUMENTATION error, see TRACE'']\<rparr>)
            | DocResult d \<Rightarrow> Inr v) of
        Inl e \<Rightarrow> Inl e
      | Inr v1 \<Rightarrow>
          (case check_version_added E doc (validate_docs_schema E doc v1) of
             Inl e \<Rightarrow> Inl e
           | Inr v2 \<Rightarrow> check_for_new_args E doc v2))"

text \<open>\<^verbatim>\<open>'... Line %d column %d' % (e.problem_mark.line + 1, e.problem_mark.column + 1)\<close> after
  the line of the mark has been moved by \<^verbatim>\<open>lineno - 1\<close>.\<close>

definition yaml_position :: "nat \<Rightarrow> nat \<Rightarrow> nat \<Rightarrow> string" where
  "yaml_position line lineno column =
     ''Line '' @ str_int (int line + (int lineno - 1) + 1) @ '' column '' @ str_nat (column + 1)"

definition validate_documentation ::
  "env \<Rightarrow> doc_entry \<Rightarrow> module_validator \<Rightarrow> exc + module_validator" where
  "validate_documentation E entry v =
     (case fst entry of
        None \<Rightarrow> Inr (v\<lparr>errors := errors v @ [''No DOCUMENTATION provided'']\<rparr>)
      | Some s \<Rightarrow>
          (case yaml_safe_load E s of
             YAMLFailure None \<Rightarrow> Inl AttributeError
           | YAMLFailure (Some mark) \<Rightarrow>
               Inr (v\<lparr>traces := traces v @
                        [YAMLError (name v @ ''.DOCUMENTATION'')
                           (int (fst mark) + (int (snd entry) - 1)) (snd mark)],
                      errors := errors v @
                        [''DOCUMENTATION is not valid YAML. '' @
                         yaml_position (fst mark) (snd entry) (snd mark)]\<rparr>)
           | YAMLDocument doc \<Rightarrow> validate_loaded_doc E doc v))"

definition validate_examples :: "doc_entry \<Rightarrow> module_validator \<Rightarrow> module_validator" where
  "validate_examples entry v =
     (if \<not> truthy (fst entry) then v\<lparr>errors := errors v @ [''No EXAMPLES provided'']\<rparr> else v)"

definition validate_return ::
  "env \<Rightarrow> doc_entry \<Rightarrow> module_validator \<Rightarrow> exc + module_validator" where
  "validate_return E entry v =
     (case fst entry of
        None \<Rightarrow>
          Inr (if is_new_module E v
               then v\<lparr>errors := errors v @ [''No RETURN documentation provided'']\<rparr>
               else v\<lparr>warnings := warnings v @ [''No RETURN provided'']\<rparr>)
      | Some s \<Rightarrow>
          if s = [] then
            Inr (if is_new_module E v
                 then v\<lparr>errors := errors v @ [''No RETURN documentation provided'']\<rparr>
                 else v\<lparr>warnings := warnings v @ [''No RETURN provided'']\<rparr>)
          else
            (case yaml_safe_load E s of
               YAMLFailure None \<Rightarrow> Inl AttributeError
             | YAMLFailure (Some mark) \<Rightarrow>
                 Inr (v\<lparr>errors := errors v @
                          [''RETURN is not valid YAML. '' @
                           yaml_position (fst mark) (snd entry) (snd mark)],
                        traces := traces v @
                          [YAMLError (name v @ ''.RETURN'')
                             (int (fst mark) + (int (snd entry) - 1)) (snd mark)]\<rparr>)
             | YAMLDocument d \<Rightarrow> Inr v))"

definition validate_docs :: "env \<Rightarrow> module_validator \<Rightarrow> exc + module_validator" where
  "validate_docs E v =
     (case get_docs v of
        Inl e \<Rightarrow> Inl e
      | Inr doc_info \<Rightarrow>
          (case validate_documentation E (DOCUMENTATION doc_info) v of
             Inl e \<Rightarrow> Inl e
           | Inr v1 \<Rightarrow> validate_return E (RETURN doc_info) (validate_examples (EXAMPLES doc_info) v1)))"

subsection \<open>The remaining checks\<close>

definition find_redeclarations :: "env \<Rightarrow> module_validator \<Rightarrow> exc + module_validator" where
  "find_redeclarations E v =
     (case ast v of
        None \<Rightarrow> Inl AttributeError
      | Some body \<Rightarrow>
          Inr (if redeclared E body \<noteq> []
               then v\<lparr>warnings := warnings v @
                        [''Redeclared basic.py variable or function: '' @
                         join '', '' (redeclared E body)]\<rparr>
               else v))"

definition find_ps_replacers :: "env \<Rightarrow> module_validator \<Rightarrow> module_validator" where
  "find_ps_replacers E v =
     (let v1 = (if \<not> str_in ''WANT_JSON'' (source_text v)
                then v\<lparr>errors := errors v @ [''WANT_JSON not found in module'']\<rparr> else v)
      in if \<not> str_in (REPLACER_WINDOWS E) (source_text v1)
         then v1\<lparr>errors := errors v1 @
                   [[CHR 0x22] @ REPLACER_WINDOWS E @ [CHR 0x22] @ '' not found in module'']\<rparr>
         else v1)"

definition PS_DOC_BLACKLIST :: "string list" where
  "PS_DOC_BLACKLIST = [''slurp.ps1'', ''setup.ps1'']"

definition find_ps_docs_py_file :: "env \<Rightarrow> module_validator \<Rightarrow> module_validator" where
  "find_ps_docs_py_file E v =
     (if basename v \<in> set PS_DOC_BLACKLIST then v
      else if \<not> isfile E (str_replace ''.ps1'' ''.py'' (path v))
        then v\<lparr>errors := errors v @ [''Missing python documentation file'']\<rparr>
        else v)"

subsection \<open>validate\<close>

definition BLACKLIST_PATTERNS :: "string list" where
  "BLACKLIST_PATTERNS = [''.git*'', ''*.pyc'', ''*.pyo'', ''.*'', ''*.md'', ''*.txt'']"

definition BLACKLIST_FILES :: "string list" where
  "BLACKLIST_FILES =
     [''.git'', ''.gitignore'', ''.travis.yml'', ''.gitattributes'', ''.gitmodules'',
      ''COPYING'', ''__init__.py'', ''VERSION'', ''test-docs.sh'']"

definition BLACKLIST :: "env \<Rightarrow> string list" where
  "BLACKLIST E = BLACKLIST_FILES @ BLACKLIST_MODULES E"

text \<open>The two tests at the head of \<^verbatim>\<open>validate\<close> after which the file is not checked.\<close>

definition blacklisted :: "env \<Rightarrow> module_validator \<Rightarrow> bool" where
  "blacklisted E v =
     (basename v \<in> set (BLACKLIST E) \<or> name v \<in> set (BLACKLIST E) \<or>
      list_ex (fnmatch (basename v)) BLACKLIST_PATTERNS)"

text \<open>The checks of a python module that is not made of documentation only, in the order
  of \<^verbatim>\<open>validate\<close>; the tree that one check leaves is the tree the next one reads.\<close>

definition python_checks :: "env \<Rightarrow> module_validator \<Rightarrow> exc + module_validator" where
  "python_checks E v =
     (case find_json_import (check_for_sys_exit v) of
        Inl e \<Rightarrow> Inl e
      | Inr v1 \<Rightarrow>
     (case find_requests_import v1 of
        Inl e \<Rightarrow> Inl e
      | Inr v2 \<Rightarrow>
     (case find_main_call v2 of
        Inl e \<Rightarrow> Inl e
      | Inr found \<Rightarrow>
     (case find_module_utils (snd found) (fst found) of
        Inl e \<Rightarrow> Inl e
      | Inr utils \<Rightarrow>
     (case find_has_import (fst utils) of
        Inl e \<Rightarrow> Inl e
      | Inr v5 \<Rightarrow> find_redeclarations E (check_for_tabs v5))))))"

text \<open>The end of \<^verbatim>\<open>validate\<close>: the checks of a powershell module, the license header and
  the interpreter line.\<close>

definition final_checks :: "env \<Rightarrow> module_validator \<Rightarrow> module_validator" where
  "final_checks E v =
     (let v1 = (if powershell_module v
                then find_ps_docs_py_file E (find_ps_replacers E v) else v);
          v2 = check_for_gpl3_header v1
      in if \<not> just_docs v2 then check_interpreter (powershell_module v2) v2 else v2)"

definition validate :: "env \<Rightarrow> module_validator \<Rightarrow> exc + module_validator" where
  "validate E v0 =
     (let v = reset v0 in
      if blacklisted E v then Inr v
      else
        let v1 = (if \<not> python_module v \<and> \<not> powershell_module v
                  then v\<lparr>errors := errors v @
                           [''Official Ansible modules must have a .py extension for python '' @
                            ''modules or a .ps1 for powershell modules''],
                         python_module_override := True\<rparr>
                  else v)
        in if python_module v1 \<and> ast v1 = None then
             Inr (v1\<lparr>errors := errors v1 @ [''Python SyntaxError while parsing module''],
                     traces := traces v1 @
                       (case compile_exception E (source_text v1) (path v1) of
                          None \<Rightarrow> [] | Some e \<Rightarrow> [e])\<rparr>)
           else
             (case (if python_module v1 then validate_docs E v1 else Inr v1) of
                Inl e \<Rightarrow> Inl e
              | Inr v2 \<Rightarrow>
                  (case (if python_module v2 \<and> \<not> just_docs v2 then python_checks E v2
                         else Inr v2) of
                     Inl e \<Rightarrow> Inl e
                   | Inr v3 \<Rightarrow> Inr (final_checks E v3))))"

section \<open>PythonPackageValidator and main\<close>

text \<open>\<^verbatim>\<open>os.path.join(path, name)\<close> for a relative \<^verbatim>\<open>name\<close>.\<close>

definition path_join :: "string \<Rightarrow> string \<Rightarrow> string" where
  "path_join a b = (if a = [] \<or> suffix ''/'' a then a @ b else a @ ''/'' @ b)"

definition package_validate :: "env \<Rightarrow> validator \<Rightarrow> validator" where
  "package_validate E pv =
     (let v = reset pv in
      if \<not> path_exists E (path_join (path v) ''__init__.py'')
      then v\<lparr>errors := errors v @
               [''Ansible module subdirectories must contain an __init__.py'']\<rparr>
      else v)"

text \<open>
  \<^verbatim>\<open>main\<close>. The walk over the directory, the blacklist of directories and the exclusion
  pattern decide which validators are made; the model starts from their list, in the order
  of the walk (the single file of the other mode is a list of one, an excluded file the
  empty list). Each one is validated and reported, what \<^verbatim>\<open>report\<close> returns is appended to
  the list \<^verbatim>\<open>exit\<close>, and the run ends with \<^verbatim>\<open>sys.exit(sum(exit))\<close>. The loop carries what has
  been printed and the list \<^verbatim>\<open>exit\<close>; an exception of a validation ends the run.
\<close>

datatype artifact = ModuleFile module_validator | PackageDir validator

fun main_loop ::
  "env \<Rightarrow> bool \<Rightarrow> artifact list \<Rightarrow> out list \<times> nat list \<Rightarrow> exc + (out list \<times> nat list)" where
  "main_loop E show_warnings [] acc = Inr acc"
| "main_loop E show_warnings (ModuleFile mv # rest) acc =
     (case validate E mv of
        Inl e \<Rightarrow> Inl e
      | Inr v \<Rightarrow>
          main_loop E show_warnings rest
            (fst acc @ fst (report show_warnings v), snd acc @ [snd (report show_warnings v)]))"
| "main_loop E show_warnings (PackageDir pv # rest) acc =
     main_loop E show_warnings rest
       (fst acc @ fst (report show_warnings (package_validate E pv)),
        snd acc @ [snd (report show_warnings (package_validate E pv))])"

definition main :: "env \<Rightarrow> bool \<Rightarrow> artifact list \<Rightarrow> exc + (out list \<times> nat)" where
  "main E show_warnings artifacts =
     (case main_loop E show_warnings artifacts ([], []) of
        Inl e \<Rightarrow> Inl e
      | Inr acc \<Rightarrow> Inr (fst acc, sum_list (snd acc)))"

section \<open>Functions used to state the properties\<close>

text \<open>The message of the tab check for the line \<open>snd p\<close> at the 0-based position
  \<open>fst p\<close> of the file: the line is counted from 1, the column is the 0-based offset of
  the first tab of the line.\<close>

definition tab_message :: "nat \<times> string \<Rightarrow> string" where
  "tab_message p = ''indentation contains tabs. line '' @ str_nat (fst p + 1) @
                   '' column '' @ str_nat (str_index (snd p) TAB)"

text \<open>A module file with the given path, text and parsed top-level statements, before
  validation.\<close>

definition parsed_module :: "string \<Rightarrow> string \<Rightarrow> stmt list \<Rightarrow> module_validator" where
  "parsed_module p t body = \<lparr>path = p, errors = [], warnings = [], traces = [],
     source_text = t, ast = Some body, python_module_override = False\<rparr>"

text \<open>A python file of thirteen lines: ten empty lines, the definition of \<^verbatim>\<open>main\<close> on
  line 11, its body on line 12, indented by three spaces and a tab (the tab is the fourth
  character of the line), and the call of \<^verbatim>\<open>main\<close> on line 13; with the two top-level
  statements that \<^verbatim>\<open>ast.parse\<close> gives for it.\<close>

definition tabbed_text :: string where
  "tabbed_text =
     replicate 10 NL @ ''def main():'' @ [NL] @ ''   '' @ [TAB] @ ''pass'' @ [NL] @
     ''main()'' @ [NL]"

definition tabbed_module :: module_validator where
  "tabbed_module =
     parsed_module ''m.py'' tabbed_text [OtherStmt 11, Expr (Call (Name ''main'')) 13]"

text \<open>The last top-level assignment with the name \<open>nm\<close> among its targets, and the entry
  of a documentation block read from it: the literal without its first \<open>k\<close> characters,
  and the line of the assignment.\<close>

fun assigns :: "string \<Rightarrow> stmt \<Rightarrow> bool" where
  "assigns nm (Assign targets val l) = (Name nm \<in> set targets)"
| "assigns nm child = False"

definition last_assign :: "string \<Rightarrow> stmt list \<Rightarrow> stmt option" where
  "last_assign nm body =
     (case filter (assigns nm) body of [] \<Rightarrow> None | x # xs \<Rightarrow> Some (last (x # xs)))"

fun entry_of :: "nat \<Rightarrow> stmt option \<Rightarrow> doc_entry" where
  "entry_of k (Some (Assign targets val l)) = (map_option (drop k) (attr_s val), l)"
| "entry_of k other = (None, 0)"

text \<open>The line numbers of the calls of \<^verbatim>\<open>main\<close> among the given statements, in their
  order.\<close>

definition main_calls :: "stmt list \<Rightarrow> nat list" where
  "main_calls body = List.map_filter main_call body"

text \<open>A module whose only top-level statement is a \<^verbatim>\<open>__name__\<close> guard that holds the import
  of the module utilities, a \<^verbatim>\<open>try\<close> that imports without a flag, and the call of
  \<^verbatim>\<open>main\<close>.\<close>

definition guard_stmts :: "stmt list" where
  "guard_stmts =
     [ImportFrom (Some ''ansible.module_utils.basic'') [Alias ''*'' None] 10,
      TryExcept [Import [Alias ''foo'' None] 12] [[OtherStmt 14]] 11,
      Expr (Call (Name ''main'')) 15]"

definition guarded_body :: "stmt list" where
  "guarded_body = [IfStmt (Compare (Name ''__name__'')) guard_stmts 9]"

text \<open>
  An environment for examples: the release of ansible, whether the registry has the
  plugin, and what \<^verbatim>\<open>get_docstring\<close> returns. Every YAML text loads, no schema complains,
  \<^verbatim>\<open>compile\<close> raises a syntax error, no name is redeclared, every file that \<^verbatim>\<open>isfile\<close> is
  asked about exists and no package directory has an initializer file.
\<close>

definition test_env :: "string \<Rightarrow> bool \<Rightarrow> docstring_result \<Rightarrow> env" where
  "test_env release published previous =
     \<lparr>ansible_version = release,
      has_plugin = (\<lambda>n. published),
      find_plugin = (\<lambda>n. Some ''published.py''),
      get_docstring = (\<lambda>p. previous),
      yaml_safe_load =
        (\<lambda>s. YAMLDocument \<lparr>doc_version_added = None, doc_options = [], doc_fragment = None\<rparr>),
      doc_schema = (\<lambda>d. []),
      option_schema = (\<lambda>d. []),
      compile_exception = (\<lambda>t p. Some (OtherException ''SyntaxError'')),
      redeclared = (\<lambda>body. []),
      BLACKLIST_MODULES = [],
      REPLACER_WINDOWS = ''# POWERSHELL_COMMON'',
      isfile = (\<lambda>p. True),
      path_exists = (\<lambda>p. False)\<rparr>"




text \<open>A module file whose text did not parse, before validation.\<close>

definition unparsed_module :: "string \<Rightarrow> string \<Rightarrow> module_validator" where
  "unparsed_module p t = \<lparr>path = p, errors = [], warnings = [], traces = [],
     source_text = t, ast = None, python_module_override = False\<rparr>"

text \<open>Two validators are of the same module when they agree on the path, the text, the
  tree and the forced classification.\<close>

definition same_module :: "module_validator \<Rightarrow> module_validator \<Rightarrow> bool" where
  "same_module v v' =
     (path v' = path v \<and> source_text v' = source_text v \<and> ast v' = ast v \<and>
      python_module_override v' = python_module_override v)"

text \<open>An environment in which the plugin is published with an empty document, for the
  release 2.3, and a file of documentation only.\<close>

definition published_env :: env where
  "published_env =
     test_env ''2.3.0'' True
       (DocResult (Some \<lparr>doc_version_added = None, doc_options = [], doc_fragment = None\<rparr>))"

definition docs_only_body :: "stmt list" where
  "docs_only_body =
     [Assign [Name ''DOCUMENTATION''] (Str ''module: m'') 1,
      Assign [Name ''EXAMPLES''] (Str (NL # ''- m:'')) 2,
      Assign [Name ''RETURN''] (Str ''changed: bool'') 3]"

text \<open>The error of the license-header check, and what every other step of validation
  keeps: the path, the text, and the absence of that error.\<close>

definition gpl_message :: string where
  "gpl_message = ''GPLv3 license header not found''"

definition license_step :: "module_validator \<Rightarrow> module_validator \<Rightarrow> bool" where
  "license_step v v' =
     (path v' = path v \<and> source_text v' = source_text v \<and>
      (gpl_message \<in> set (errors v') \<longrightarrow> gpl_message \<in> set (errors v)))"


text \<open>The number of errors in the report of an artifact after its validation.\<close>

fun error_count :: "env \<Rightarrow> artifact \<Rightarrow> nat" where
  "error_count E (ModuleFile mv) =
     (case validate E mv of Inl e \<Rightarrow> 0 | Inr v \<Rightarrow> length (errors v))"
| "error_count E (PackageDir pv) = length (errors (package_validate E pv))"

section \<open>Exit status\<close>

lemma report_count: "snd (report show_warnings v) = length (errors v)"
  by (simp add: report_def Let_def)

lemma main_loop_exit:
  "main_loop E show_warnings artifacts acc = Inr acc' \<Longrightarrow>
   sum_list (snd acc') = sum_list (snd acc) + sum_list (map (error_count E) artifacts)"
proof (induction artifacts arbitrary: acc)
  case Nil
  then show ?case by simp
next
  case (Cons a rest)
  show ?case
  proof (cases a)
    case (ModuleFile mv)
    with Cons.prems obtain v where v: "validate E mv = Inr v"
      and rest: "main_loop E show_warnings rest
                   (fst acc @ fst (report show_warnings v),
                    snd acc @ [snd (report show_warnings v)]) = Inr acc'"
      by (auto split: sum.splits)
    from Cons.IH[OF rest] v ModuleFile show ?thesis
      by (simp add: report_count)
  next
    case (PackageDir pv)
    with Cons.prems have rest: "main_loop E show_warnings rest
        (fst acc @ fst (report show_warnings (package_validate E pv)),
         snd acc @ [snd (report show_warnings (package_validate E pv))]) = Inr acc'"
      by simp
    from Cons.IH[OF rest] PackageDir show ?thesis
      by (simp add: report_count)
  qed
qed

text \<open>
  C1 (as stated, refuted): a report with two errors contributes 2 to the exit status, not
  1; and the run over the single file \<open>lib/m\<close>, which has no recognized extension and does
  not parse (two errors), exits with 2.
\<close>

theorem C1_counterexample:
  "snd (report False \<lparr>path = ''m.py'', errors = [''e1'', ''e2''], warnings = [], traces = []\<rparr>) = 2 \<and>
   map_sum (\<lambda>e. e) snd
     (main published_env False [ModuleFile (unparsed_module ''lib/m'' ''x = ('')]) = Inr 2"
  by code_simp

text \<open>
  C1 (amended): the contribution of an artifact to the exit status is the number of
  errors of its report (so it is 0 exactly when the report has no error), whatever the
  warnings and the warnings flag are, and the exit status of a run that ends is the sum of
  these numbers over the validated module files and package directories.
\<close>

theorem C1_exit_status_counts_errors:
  "snd (report show_warnings v) = length (errors v) \<and>
   (snd (report show_warnings v) = 0) = (errors v = []) \<and>
   snd (report show_warnings (v\<lparr>warnings := ws\<rparr>)) = snd (report show_warnings v) \<and>
   (\<forall>printed status. main E show_warnings artifacts = Inr (printed, status) \<longrightarrow>
      status = sum_list (map (error_count E) artifacts))"
proof -
  have "status = sum_list (map (error_count E) artifacts)"
    if "main E show_warnings artifacts = Inr (printed, status)" for printed status
  proof -
    from that obtain acc where
      l: "main_loop E show_warnings artifacts ([], []) = Inr acc" and s: "status = sum_list (snd acc)"
      by (auto simp: main_def split: sum.splits)
    from main_loop_exit[OF l] s show ?thesis by simp
  qed
  then show ?thesis
    by (simp add: report_count)
qed

theorem C1_exit_status_counts_errors_witness:
  "snd (report True \<lparr>path = ''m.py'', errors = [''e1'', ''e2'', ''e3''], warnings = [''w''],
                        traces = []\<rparr>) = 3 \<and>
   map_sum (\<lambda>e. e) snd
     (main published_env True
        [PackageDir \<lparr>path = ''lib'', errors = [], warnings = [], traces = []\<rparr>,
         ModuleFile (unparsed_module ''lib/m'' ''x = (''),
         ModuleFile (unparsed_module ''lib/__init__.py'' [])]) = Inr 3 \<and>
   sum_list (map (error_count published_env)
        [PackageDir \<lparr>path = ''lib'', errors = [], warnings = [], traces = []\<rparr>,
         ModuleFile (unparsed_module ''lib/m'' ''x = (''),
         ModuleFile (unparsed_module ''lib/__init__.py'' [])]) = 3"
proof -
  let ?arts = "[PackageDir \<lparr>path = ''lib'', errors = [], warnings = [], traces = []\<rparr>,
         ModuleFile (unparsed_module ''lib/m'' ''x = (''),
         ModuleFile (unparsed_module ''lib/__init__.py'' [])]"
  have r: "map_sum (\<lambda>e. e) snd (main published_env True ?arts) = Inr 3"
    by code_simp
  then obtain printed where m: "main published_env True ?arts = Inr (printed, 3)"
    by (cases "main published_env True ?arts") auto
  from C1_exit_status_counts_errors
         [of True "\<lparr>path = ''m.py'', errors = [''e1'', ''e2'', ''e3''], warnings = [''w''],
                    traces = []\<rparr>" "[]" published_env ?arts] m r
  show ?thesis
    by simp
qed

section \<open>Indentation\<close>

lemma check_for_tabs_loop_eq:
  "check_for_tabs_loop n lines errs =
   errs @ map tab_message (filter (\<lambda>p. TAB \<in> set (snd p)) (enumerate n lines))"
  by (induction lines arbitrary: n errs) (simp_all add: tab_message_def)

text \<open>
  C6 (the code departs from the property): the tab check appends, in the order of the
  lines, one message for each line that has a tab, \<open>indentation contains tabs. line L
  column C\<close>, where \<open>L\<close> is the number of the line counted from 1 and \<open>C\<close> is the offset of
  the first tab of the line counted from 0, that is one less than its column counted
  from 1 (the two position messages of \<^verbatim>\<open>_validate_docs\<close> add 1 to the line and to the
  column). It appends nothing for a line without a tab.
\<close>

theorem C6_check_for_tabs_reports_offset:
  "errors (check_for_tabs v) =
   errors v @ map tab_message
     (filter (\<lambda>p. TAB \<in> set (snd p)) (enumerate 0 (splitlines (source_text v))))"
  by (simp add: check_for_tabs_def check_for_tabs_loop_eq)

text \<open>The file whose line 12 has its tab at column 4 counted from 1: the message has
  column 3, and the message with column 4 is not produced; it is the only message about
  indentation in the report of the validation of the file.\<close>

theorem C6_check_for_tabs_reports_offset_witness:
  "splitlines tabbed_text ! 11 = ''   '' @ [TAB] @ ''pass'' \<and>
   errors (check_for_tabs tabbed_module) = [''indentation contains tabs. line 12 column 3''] \<and>
   ''indentation contains tabs. line 12 column 4'' \<notin> set (errors (check_for_tabs tabbed_module)) \<and>
   map_sum (\<lambda>e. e) (\<lambda>v. filter (prefix ''indentation'') (errors v))
     (validate published_env tabbed_module) =
     Inr [''indentation contains tabs. line 12 column 3'']"
proof -
  have l: "splitlines tabbed_text ! 11 = ''   '' @ [TAB] @ ''pass''"
    by code_simp
  have r: "errors tabbed_module @ map tab_message
             (filter (\<lambda>p. TAB \<in> set (snd p))
                (enumerate 0 (splitlines (source_text tabbed_module)))) =
           [''indentation contains tabs. line 12 column 3'']"
    by code_simp
  have e: "errors (check_for_tabs tabbed_module) =
           [''indentation contains tabs. line 12 column 3'']"
    unfolding C6_check_for_tabs_reports_offset[of tabbed_module] by (rule r)
  have w: "map_sum (\<lambda>e. e) (\<lambda>v. filter (prefix ''indentation'') (errors v))
             (validate published_env tabbed_module) =
           Inr [''indentation contains tabs. line 12 column 3'']"
    by code_simp
  from l e w show ?thesis
    by simp
qed

section \<open>The document blocks\<close>

lemma last_assign_Nil: "last_assign nm [] = None"
  by (simp add: last_assign_def)

lemma last_assign_Cons:
  "last_assign nm (st # rest) =
     (case last_assign nm rest of
        Some x \<Rightarrow> Some x
      | None \<Rightarrow> if assigns nm st then Some st else None)"
  by (auto simp: last_assign_def split: list.splits)

lemma get_docs_targets_fields:
  "get_docs_targets val l ts d0 = Inr d \<Longrightarrow>
   DOCUMENTATION d = (if Name ''DOCUMENTATION'' \<in> set ts then (attr_s val, l) else DOCUMENTATION d0) \<and>
   EXAMPLES d = (if Name ''EXAMPLES'' \<in> set ts then (map_option (drop 1) (attr_s val), l) else EXAMPLES d0) \<and>
   RETURN d = (if Name ''RETURN'' \<in> set ts then (attr_s val, l) else RETURN d0)"
proof (induction ts arbitrary: d0)
  case Nil
  then show ?case by simp
next
  case (Cons t ts)
  then obtain i where i: "t = Name i"
    by (cases t) auto
  show ?case
    using Cons.prems Cons.IH i
    by (auto split: option.splits if_splits)
qed

lemma get_docs_loop_fields:
  "get_docs_loop body d0 = Inr d \<Longrightarrow>
   DOCUMENTATION d = (case last_assign ''DOCUMENTATION'' body of
                        None \<Rightarrow> DOCUMENTATION d0 | Some st \<Rightarrow> entry_of 0 (Some st)) \<and>
   EXAMPLES d = (case last_assign ''EXAMPLES'' body of
                        None \<Rightarrow> EXAMPLES d0 | Some st \<Rightarrow> entry_of 1 (Some st)) \<and>
   RETURN d = (case last_assign ''RETURN'' body of
                        None \<Rightarrow> RETURN d0 | Some st \<Rightarrow> entry_of 0 (Some st))"
proof (induction body arbitrary: d0)
  case Nil
  then show ?case by (simp add: last_assign_Nil)
next
  case (Cons st rest)
  show ?case
  proof (cases st)
    case (Assign targets val l)
    from Cons.prems Assign obtain d1 where
      d1: "get_docs_targets val l targets d0 = Inr d1" and rest: "get_docs_loop rest d1 = Inr d"
      by (auto split: sum.splits)
    note f = get_docs_targets_fields[OF d1] and ih = Cons.IH[OF rest]
    show ?thesis
      using f ih Assign
      by (auto simp: last_assign_Cons option.map_ident split: option.splits)
  next
    case (Import x21 x22)
    then show ?thesis using Cons by (simp add: last_assign_Cons split: option.splits)
  next
    case (ImportFrom x31 x32 x33)
    then show ?thesis using Cons by (simp add: last_assign_Cons split: option.splits)
  next
    case (TryExcept x41 x42 x43)
    then show ?thesis using Cons by (simp add: last_assign_Cons split: option.splits)
  next
    case (IfStmt x51 x52 x53)
    then show ?thesis using Cons by (simp add: last_assign_Cons split: option.splits)
  next
    case (Expr x61 x62)
    then show ?thesis using Cons by (simp add: last_assign_Cons split: option.splits)
  next
    case (OtherStmt x7)
    then show ?thesis using Cons by (simp add: last_assign_Cons split: option.splits)
  qed
qed

text \<open>
  C7 (as stated, refuted): the literal of the return-value block keeps its leading newline,
  and the literal of the examples block loses its first character.
\<close>

theorem C7_counterexample:
  "get_docs (parsed_module ''m.py'' []
     [Assign [Name ''RETURN''] (Str (NL # ''x: y'')) 3,
      Assign [Name ''EXAMPLES''] (Str ''- a'') 7]) =
   Inr \<lparr>DOCUMENTATION = (None, 0), EXAMPLES = (Some '' a'', 7),
        RETURN = (Some (NL # ''x: y''), 3)\<rparr>"
  by (simp add: get_docs_def parsed_module_def)

text \<open>
  C7 (amended): when the extractor returns, the entry of each of the three blocks comes from
  the last top-level assignment to its name and holds the line number of that assignment
  (no value and line 0 without such an assignment). The literal of the documentation block
  and of the return-value block is recorded unchanged; the literal of the examples block
  is recorded without its first character, whatever that character is.
\<close>

theorem C7_get_docs_strips_examples_only:
  assumes "ast v = Some body" and "get_docs v = Inr d"
  shows "DOCUMENTATION d = entry_of 0 (last_assign ''DOCUMENTATION'' body) \<and>
         EXAMPLES d = entry_of 1 (last_assign ''EXAMPLES'' body) \<and>
         RETURN d = entry_of 0 (last_assign ''RETURN'' body)"
proof -
  from assms have "get_docs_loop body
      \<lparr>DOCUMENTATION = (None, 0), EXAMPLES = (None, 0), RETURN = (None, 0)\<rparr> = Inr d"
    by (simp add: get_docs_def)
  from get_docs_loop_fields[OF this] show ?thesis
    by (auto split: option.splits)
qed

theorem C7_get_docs_witness:
  "ast (parsed_module ''m.py'' []
     [Assign [Name ''DOCUMENTATION''] (Str ''old'') 2,
      Assign [Name ''EXAMPLES''] (Str (NL # ''- a'')) 5,
      OtherStmt 8,
      Assign [Name ''DOCUMENTATION''] (Str ''new'') 9]) =
   Some [Assign [Name ''DOCUMENTATION''] (Str ''old'') 2,
      Assign [Name ''EXAMPLES''] (Str (NL # ''- a'')) 5,
      OtherStmt 8,
      Assign [Name ''DOCUMENTATION''] (Str ''new'') 9] \<and>
   get_docs (parsed_module ''m.py'' []
     [Assign [Name ''DOCUMENTATION''] (Str ''old'') 2,
      Assign [Name ''EXAMPLES''] (Str (NL # ''- a'')) 5,
      OtherStmt 8,
      Assign [Name ''DOCUMENTATION''] (Str ''new'') 9]) =
   Inr \<lparr>DOCUMENTATION = (Some ''new'', 9), EXAMPLES = (Some ''- a'', 5), RETURN = (None, 0)\<rparr> \<and>
   DOCUMENTATION \<lparr>DOCUMENTATION = (Some ''new'', 9), EXAMPLES = (Some ''- a'', 5),
                  RETURN = (None, 0)\<rparr> = (Some ''new'', 9) \<and>
   EXAMPLES \<lparr>DOCUMENTATION = (Some ''new'', 9), EXAMPLES = (Some ''- a'', 5),
             RETURN = (None, 0)\<rparr> = (Some ''- a'', 5) \<and>
   RETURN \<lparr>DOCUMENTATION = (Some ''new'', 9), EXAMPLES = (Some ''- a'', 5),
           RETURN = (None, 0)\<rparr> = (None, 0)"
proof -
  let ?body = "[Assign [Name ''DOCUMENTATION''] (Str ''old'') 2,
      Assign [Name ''EXAMPLES''] (Str (NL # ''- a'')) 5,
      OtherStmt 8,
      Assign [Name ''DOCUMENTATION''] (Str ''new'') 9]"
  let ?d = "\<lparr>DOCUMENTATION = (Some ''new'', 9), EXAMPLES = (Some ''- a'', 5), RETURN = (None, 0)\<rparr>"
  have h1: "ast (parsed_module ''m.py'' [] ?body) = Some ?body"
    by (simp add: parsed_module_def)
  have h2: "get_docs (parsed_module ''m.py'' [] ?body) = Inr ?d"
    by (simp add: get_docs_def parsed_module_def)
  from C7_get_docs_strips_examples_only[OF h1 h2] h1 h2 show ?thesis
    by (simp add: last_assign_def)
qed

section \<open>The call of main\<close>

lemma main_calls_Nil: "main_calls [] = []"
  by (simp add: main_calls_def List.map_filter_simps)

lemma main_calls_Cons:
  "main_calls (st # rest) =
     (case main_call st of None \<Rightarrow> main_calls rest | Some l \<Rightarrow> l # main_calls rest)"
  by (cases "main_call st") (simp_all add: main_calls_def List.map_filter_simps)

lemma find_main_call_loop_eq:
  "find_main_call_loop len xs acc =
     (if main_calls xs = [] then fst acc else last (main_calls xs),
      snd acc @ map (\<lambda>l. ''Call to main() not the last line'')
                  (filter (\<lambda>l. int l < int len - 1) (main_calls xs)))"
proof (induction xs arbitrary: acc)
  case Nil
  then show ?case by (simp add: main_calls_Nil)
next
  case (Cons st rest)
  show ?case
    by (cases "main_call st") (simp_all add: Cons.IH main_calls_Cons)
qed

text \<open>
  C5 (amended): the search runs over the top-level statements followed by the bodies of the
  top-level \<^verbatim>\<open>__name__\<close> guards. It appends \<open>Call to main() not the last line\<close> once for
  every call of \<^verbatim>\<open>main\<close> there whose line number is smaller than the number of lines of the
  file minus one (at least two lines follow the call), whatever statements follow it, and
  then \<open>Did not find a call to main\<close> exactly when it returns 0, which it does when there is
  no such call.
\<close>

theorem C5_main_call_line_test:
  assumes "ast v = Some body" and "find_main_call v = Inr (v', n)"
  shows "errors v' =
           errors v
           @ map (\<lambda>l. ''Call to main() not the last line'')
               (filter (\<lambda>l. int l < int (length_lines v) - 1)
                  (main_calls (body @ if_bodies body)))
           @ (if n = 0 then [''Did not find a call to main''] else []) \<and>
         n = (if main_calls (body @ if_bodies body) = [] then 0
              else last (main_calls (body @ if_bodies body)))"
  using assms
  by (auto simp: find_main_call_def Let_def find_main_call_loop_eq)

text \<open>
  C5 (as stated, refuted): in the two-line file \<^verbatim>\<open>main()\<close>, \<^verbatim>\<open>x = 1\<close> the call of \<^verbatim>\<open>main\<close> is
  present and is not the last statement; the search returns line 1 and adds no error.
\<close>

theorem C5_counterexample:
  "main_calls [Expr (Call (Name ''main'')) 1, Assign [Name ''x''] OtherExpr 2] = [1] \<and>
   map_sum (\<lambda>e. e) (\<lambda>r. (errors (fst r), snd r))
     (find_main_call (parsed_module ''m.py'' (''main()'' @ [NL] @ ''x = 1'' @ [NL])
        [Expr (Call (Name ''main'')) 1, Assign [Name ''x''] OtherExpr 2])) = Inr ([], 1)"
  by (simp add: find_main_call_def parsed_module_def if_bodies_def length_lines_def splitlines_def
        main_calls_def List.map_filter_simps)

theorem C5_main_call_line_test_witness:
  "ast (parsed_module ''m.py'' (''main()'' @ [NL, NL] @ ''x = 1'')
          [Expr (Call (Name ''main'')) 1, Assign [Name ''x''] OtherExpr 3]) =
     Some [Expr (Call (Name ''main'')) 1, Assign [Name ''x''] OtherExpr 3] \<and>
   find_main_call (parsed_module ''m.py'' (''main()'' @ [NL, NL] @ ''x = 1'')
          [Expr (Call (Name ''main'')) 1, Assign [Name ''x''] OtherExpr 3]) =
     Inr ((parsed_module ''m.py'' (''main()'' @ [NL, NL] @ ''x = 1'')
            [Expr (Call (Name ''main'')) 1, Assign [Name ''x''] OtherExpr 3])
          \<lparr>errors := [''Call to main() not the last line'']\<rparr>, 1) \<and>
   errors ((parsed_module ''m.py'' (''main()'' @ [NL, NL] @ ''x = 1'')
            [Expr (Call (Name ''main'')) 1, Assign [Name ''x''] OtherExpr 3])
          \<lparr>errors := [''Call to main() not the last line'']\<rparr>) =
     [''Call to main() not the last line'']"
proof -
  let ?body = "[Expr (Call (Name ''main'')) 1, Assign [Name ''x''] OtherExpr 3]"
  let ?v = "parsed_module ''m.py'' (''main()'' @ [NL, NL] @ ''x = 1'') ?body"
  have h1: "ast ?v = Some ?body"
    by (simp add: parsed_module_def)
  have h2: "find_main_call ?v = Inr (?v\<lparr>errors := [''Call to main() not the last line'']\<rparr>, 1)"
    by (simp add: find_main_call_def parsed_module_def if_bodies_def length_lines_def
          splitlines_def)
  from C5_main_call_line_test[OF h1 h2] h1 h2 show ?thesis
    by simp
qed

section \<open>The tree after the search for the call of main\<close>

lemma module_utils_loop_linenos:
  "find_module_utils_loop bl n body acc = Inr acc' \<Longrightarrow>
   st \<in> set body \<Longrightarrow> module_utils_child bl n st = Inr new \<Longrightarrow>
   set (snd new) \<subseteq> set (snd acc')"
proof (induction body arbitrary: acc)
  case Nil
  then show ?case by simp
next
  case (Cons a rest)
  from Cons.prems(1) obtain na where na: "module_utils_child bl n a = Inr na"
    and rest: "find_module_utils_loop bl n rest (fst acc @ fst na, snd acc @ snd na) = Inr acc'"
    by (auto split: sum.splits)
  have mono: "set (snd (fst acc @ fst na, snd acc @ snd na)) \<subseteq> set (snd acc')"
    using rest
  proof (induction rest arbitrary: acc na)
    case Nil then show ?case by auto
  next
    case (Cons b bs)
    then show ?case by (fastforce split: sum.splits)
  qed
  show ?case
  proof (cases "st = a")
    case True
    with na Cons.prems(3) mono show ?thesis by auto
  next
    case False
    with Cons.prems(2) have "st \<in> set rest" by simp
    from Cons.IH[OF rest this Cons.prems(3)] show ?thesis .
  qed
qed

lemma has_import_loop_warnings:
  "find_has_import_loop body warns = Inr warns' \<Longrightarrow>
   st \<in> set body \<Longrightarrow> has_import_warnings st = Inr new \<Longrightarrow>
   set new \<subseteq> set warns'"
proof (induction body arbitrary: warns)
  case Nil
  then show ?case by simp
next
  case (Cons a rest)
  from Cons.prems(1) obtain na where na: "has_import_warnings a = Inr na"
    and rest: "find_has_import_loop rest (warns @ na) = Inr warns'"
    by (auto split: sum.splits)
  have mono: "set (warns @ na) \<subseteq> set warns'"
    using rest
  proof (induction rest arbitrary: warns na)
    case Nil then show ?case by auto
  next
    case (Cons b bs)
    then show ?case by (fastforce split: sum.splits)
  qed
  show ?case
  proof (cases "st = a")
    case True
    with na Cons.prems(3) mono show ?thesis by auto
  next
    case False
    with Cons.prems(2) have "st \<in> set rest" by simp
    from Cons.IH[OF rest this Cons.prems(3)] show ?thesis .
  qed
qed

text \<open>
  C9: the search for the call of \<^verbatim>\<open>main\<close> always returns for a parsed module, and the
  validator it leaves has the bodies of the top-level \<^verbatim>\<open>__name__\<close> guards appended to the
  top-level statements of its tree. The checks that validation runs on it afterwards see
  the statements of a guard as top-level statements: the search for the imports of the
  module utilities returns the line of an import that stands in a guard, and the search for
  the flags of conditional imports gives the warning of a \<^verbatim>\<open>try\<close> that stands in a guard.
\<close>

theorem C9_main_call_extends_tree:
  assumes "ast v = Some body"
  shows "\<exists>v' n. find_main_call v = Inr (v', n) \<and>
           ast v' = Some (body @ if_bodies body) \<and>
           (\<forall>ls v2 st new. find_module_utils n v' = Inr (v2, ls) \<longrightarrow> st \<in> set (if_bodies body) \<longrightarrow>
              module_utils_child (is_bottom_import_blacklisted v') n st = Inr new \<longrightarrow>
              set (snd new) \<subseteq> set ls) \<and>
           (\<forall>v3 st new. find_has_import v' = Inr v3 \<longrightarrow> st \<in> set (if_bodies body) \<longrightarrow>
              has_import_warnings st = Inr new \<longrightarrow> set new \<subseteq> set (warnings v3))"
proof -
  obtain v' n where r: "find_main_call v = Inr (v', n)"
    using assms by (auto simp: find_main_call_def Let_def)
  have a: "ast v' = Some (body @ if_bodies body)"
    using assms r by (auto simp: find_main_call_def Let_def)
  have mu: "set (snd new) \<subseteq> set ls"
    if "find_module_utils n v' = Inr (v2, ls)" "st \<in> set (if_bodies body)"
       "module_utils_child (is_bottom_import_blacklisted v') n st = Inr new" for ls v2 st new
  proof -
    from that(1) a obtain acc' where
      l: "find_module_utils_loop (is_bottom_import_blacklisted v') n (body @ if_bodies body)
            (errors v', []) = Inr acc'" and ls: "ls = snd acc'"
      by (auto simp: find_module_utils_def split: sum.splits)
    from that(2) have "st \<in> set (body @ if_bodies body)" by simp
    from module_utils_loop_linenos[OF l this that(3)] ls show ?thesis by simp
  qed
  have hi: "set new \<subseteq> set (warnings v3)"
    if "find_has_import v' = Inr v3" "st \<in> set (if_bodies body)"
       "has_import_warnings st = Inr new" for v3 st new
  proof -
    from that(1) a obtain warns where
      l: "find_has_import_loop (body @ if_bodies body) (warnings v') = Inr warns"
      and w: "warnings v3 = warns"
      by (auto simp: find_has_import_def split: sum.splits)
    from that(2) have "st \<in> set (body @ if_bodies body)" by simp
    from has_import_loop_warnings[OF l this that(3)] w show ?thesis by simp
  qed
  from r a mu hi show ?thesis by blast
qed

theorem C9_main_call_extends_tree_witness:
  "ast (parsed_module ''m.py'' [] guarded_body) = Some guarded_body \<and>
   find_main_call (parsed_module ''m.py'' [] guarded_body) =
     Inr (parsed_module ''m.py'' [] (guarded_body @ guard_stmts), 15) \<and>
   map_sum (\<lambda>e. e) snd
     (find_module_utils 15 (parsed_module ''m.py'' [] (guarded_body @ guard_stmts))) = Inr [10] \<and>
   map_sum (\<lambda>e. e) warnings
     (find_has_import (parsed_module ''m.py'' [] (guarded_body @ guard_stmts))) =
     Inr [''Found Try/Except block without HAS_ assginment'']"
  using C9_main_call_extends_tree[of "parsed_module ''m.py'' [] guarded_body" guarded_body]
  by (simp add: parsed_module_def guarded_body_def guard_stmts_def find_main_call_def
        if_bodies_def length_lines_def splitlines_def find_module_utils_def
        is_bottom_import_blacklisted_def basename_def basename_of_def BOTTOM_IMPORTS_def
        truthy_def find_has_import_def)

section \<open>Version tags\<close>




















section \<open>The flow of validate\<close>

lemma same_module_refl: "same_module v v"
  by (simp add: same_module_def)

lemma same_module_updates:
  "same_module v (v\<lparr>errors := es\<rparr>)" "same_module v (v\<lparr>warnings := ws\<rparr>)"
  "same_module v (v\<lparr>traces := ts, errors := es\<rparr>)"
  "same_module v (v\<lparr>errors := es, traces := ts\<rparr>)"
  by (simp_all add: same_module_def)

lemma check_version_added_same:
  "check_version_added E doc v = Inr v' \<Longrightarrow> same_module v v'"
  by (auto simp: check_version_added_def same_module_def split: if_splits option.splits)

lemma check_for_new_args_same:
  "check_for_new_args E doc v = Inr v' \<Longrightarrow> same_module v v'"
  by (auto simp: check_for_new_args_def same_module_def Let_def
      split: if_splits option.splits docstring_result.splits)

lemma validate_docs_schema_same: "same_module v (validate_docs_schema E doc v)"
  by (simp add: validate_docs_schema_def same_module_def)

lemma validate_loaded_doc_same:
  "validate_loaded_doc E doc v = Inr v' \<Longrightarrow> same_module v v'"
  unfolding validate_loaded_doc_def
  by (auto split: sum.splits docstring_result.splits option.splits
      dest!: check_version_added_same check_for_new_args_same
      simp: same_module_def validate_docs_schema_def)

lemma validate_documentation_same:
  "validate_documentation E entry v = Inr v' \<Longrightarrow> same_module v v'"
  by (auto simp: validate_documentation_def same_module_updates same_module_refl
      dest: validate_loaded_doc_same split: option.splits yaml_result.splits)

lemma validate_examples_same: "same_module v (validate_examples entry v)"
  by (simp add: validate_examples_def same_module_def)

lemma validate_return_same:
  "validate_return E entry v = Inr v' \<Longrightarrow> same_module v v'"
  by (auto simp: validate_return_def same_module_def
      split: option.splits yaml_result.splits if_splits)

lemma validate_docs_same:
  "validate_docs E v = Inr v' \<Longrightarrow> same_module v v'"
  unfolding validate_docs_def
  by (auto split: sum.splits if_splits
      dest!: validate_documentation_same validate_return_same
      simp: same_module_def validate_examples_def)

lemma suffix_last: "suffix xs p \<Longrightarrow> xs \<noteq> [] \<Longrightarrow> last p = last xs"
  by (auto simp: suffix_def)

lemma py_not_ps1: "suffix ''.py'' p \<Longrightarrow> \<not> suffix ''.ps1'' p"
  using suffix_last[of "''.py''" p] suffix_last[of "''.ps1''" p] by auto

lemma reset_fields [simp]:
  "path (reset v) = path v" "source_text (reset v) = source_text v" "ast (reset v) = ast v"
  "python_module_override (reset v) = python_module_override v"
  "errors (reset v) = []" "warnings (reset v) = []" "traces (reset v) = []"
  by (simp_all add: reset_def)

lemma blacklisted_reset: "blacklisted E (reset v) = blacklisted E v"
  by (simp add: blacklisted_def basename_def name_def)

text \<open>
  C10: for a file with the python extension that parses and whose top-level statements are
  all assignments, validation of a file that is not blacklisted is the documentation
  validation followed by the license-header check and nothing else: none of the checks of
  the rule engine and no interpreter-line check adds to the report. (A blacklisted file is
  not checked at all.)
\<close>

theorem C10_docs_only:
  assumes "suffix ''.py'' (path v)" and "ast v = Some body" and "list_all is_Assign body"
  shows "validate E v =
           (if blacklisted E v then Inr (reset v)
            else case validate_docs E (reset v) of
                   Inl e \<Rightarrow> Inl e
                 | Inr v2 \<Rightarrow> Inr (check_for_gpl3_header v2))"
proof (cases "blacklisted E v")
  case True
  then show ?thesis
    by (simp add: validate_def Let_def blacklisted_reset)
next
  case False
  have py: "python_module (reset v)"
    using assms(1) by (simp add: python_module_def)
  have tail: "(case (if python_module v2 \<and> \<not> just_docs v2 then python_checks E v2 else Inr v2) of
                 Inl e \<Rightarrow> Inl e | Inr v3 \<Rightarrow> Inr (final_checks E v3)) =
              Inr (check_for_gpl3_header v2)"
    if "validate_docs E (reset v) = Inr v2" for v2
  proof -
    from validate_docs_same[OF that] have s: "same_module (reset v) v2" .
    then have jd: "just_docs v2"
      using assms(2,3) by (simp add: same_module_def just_docs_def)
    have nps: "\<not> powershell_module v2"
      using s assms(1) py_not_ps1 by (simp add: same_module_def powershell_module_def)
    have jd': "just_docs (check_for_gpl3_header v2)"
      using jd by (simp add: just_docs_def check_for_gpl3_header_def)
    show ?thesis
      using jd nps jd' by (simp add: final_checks_def Let_def)
  qed
  show ?thesis
    using False py assms(2) tail
    by (auto simp: validate_def Let_def blacklisted_reset split: sum.splits)
qed

theorem C10_docs_only_witness:
  "suffix ''.py'' (path (parsed_module ''docs.py'' [] docs_only_body)) \<and>
   list_all is_Assign docs_only_body \<and>
   \<not> prefix ''#!/usr/bin/python'' (source_text (parsed_module ''docs.py'' [] docs_only_body)) \<and>
   validate published_env (parsed_module ''docs.py'' [] docs_only_body) =
     Inr ((parsed_module ''docs.py'' [] docs_only_body)
            \<lparr>errors := [''GPLv3 license header not found'']\<rparr>)"
proof -
  let ?v = "parsed_module ''docs.py'' [] docs_only_body"
  have h1: "suffix ''.py'' (path ?v)"
    by code_simp
  have h2: "ast ?v = Some docs_only_body"
    by (simp add: parsed_module_def)
  have h3: "list_all is_Assign docs_only_body"
    by (simp add: docs_only_body_def)
  have h4: "\<not> prefix ''#!/usr/bin/python'' (source_text ?v)"
    by (simp add: parsed_module_def)
  have r: "(if blacklisted published_env ?v then Inr (reset ?v)
            else case validate_docs published_env (reset ?v) of
                   Inl e \<Rightarrow> Inl e
                 | Inr v2 \<Rightarrow> Inr (check_for_gpl3_header v2)) =
           Inr (?v\<lparr>errors := [''GPLv3 license header not found'']\<rparr>)"
    by code_simp
  from C10_docs_only[OF h1 h2 h3, of published_env] r h1 h3 h4 show ?thesis
    by simp
qed

text \<open>
  C2 (as stated, refuted): a python file whose text does not parse, has no license marker
  and no interpreter line gets the syntax error and the trace of \<^verbatim>\<open>compile\<close>, and neither
  the license-header error nor the interpreter-line error.
\<close>

theorem C2_counterexample:
  "\<not> str_in ''GNU General Public License'' ''x = ('' \<and> \<not> str_in ''version 3'' ''x = ('' \<and>
   \<not> prefix ''#!/usr/bin/python'' ''x = ('' \<and>
   validate published_env (unparsed_module ''m.py'' ''x = ('') =
     Inr ((unparsed_module ''m.py'' ''x = ('')
            \<lparr>errors := [''Python SyntaxError while parsing module''],
             traces := [OtherException ''SyntaxError'']\<rparr>)"
  by code_simp

text \<open>
  C2 (amended): for a file that is not blacklisted, is not a powershell module and whose
  text fails to parse, validation reports the syntax error (after the error of an
  unrecognized extension, if the file has neither extension), keeps the exception of the
  compile pass as a trace when that pass raises one, and returns: no other check runs, the
  raw-text checks of the license header and of the interpreter line included.
\<close>

theorem C2_parse_failure:
  assumes "\<not> blacklisted E v" and "ast v = None" and "\<not> powershell_module v"
  shows "validate E v =
           Inr ((reset v)
                 \<lparr>errors := (if python_module v then []
                              else [''Official Ansible modules must have a .py extension for python '' @
                                    ''modules or a .ps1 for powershell modules''])
                             @ [''Python SyntaxError while parsing module''],
                  traces := (case compile_exception E (source_text v) (path v) of
                               None \<Rightarrow> [] | Some e \<Rightarrow> [e]),
                  python_module_override := (python_module_override v \<or> \<not> python_module v)\<rparr>)"
  using assms
  by (auto simp: validate_def Let_def blacklisted_reset python_module_def powershell_module_def)

theorem C2_parse_failure_witness:
  "\<not> blacklisted published_env (unparsed_module ''lib/m'' ''x = ('') \<and>
   \<not> powershell_module (unparsed_module ''lib/m'' ''x = ('') \<and>
   validate published_env (unparsed_module ''lib/m'' ''x = ('') =
     Inr ((unparsed_module ''lib/m'' ''x = ('')
            \<lparr>errors := [''Official Ansible modules must have a .py extension for python '' @
                         ''modules or a .ps1 for powershell modules'',
                        ''Python SyntaxError while parsing module''],
             traces := [OtherException ''SyntaxError''],
             python_module_override := True\<rparr>)"
proof -
  let ?v = "unparsed_module ''lib/m'' ''x = (''"
  have h1: "\<not> blacklisted published_env ?v"
    by code_simp
  have h2: "ast ?v = None"
    by (simp add: unparsed_module_def)
  have h3: "\<not> powershell_module ?v"
    by code_simp
  have h4: "\<not> python_module ?v"
    by code_simp
  from C2_parse_failure[OF h1 h2 h3] h1 h3 h4 show ?thesis
    by (simp add: unparsed_module_def reset_def published_env_def test_env_def)
qed

section \<open>The license header\<close>




























lemma check_interpreter_step: "license_step v (check_interpreter p v)"
  by (auto simp: check_interpreter_def license_step_def gpl_message_def)







end
